theory Spec2Isabelle
  imports Complex_Main
begin

section \<open>JavaScript values used by the engine\<close>

text \<open>
  The engine of \<^verbatim>\<open>script.js\<close> computes with JavaScript numbers. Every number the
  engine itself produces is an integer; the guards of the source also have to decide what
  happens on \<^verbatim>\<open>NaN\<close> and the two infinities. The type \<open>jsnum\<close> holds exactly these values
  (finite numbers with a fractional part are outside this development, and integers are
  taken as exact at every magnitude). The values that can reach the guards are those of
  \<open>jsval\<close>; objects other than arrays are not among them.
\<close>

datatype jsnum = Fin int | NaN | PosInf | NegInf

datatype jsval =
    JUndefined
  | JNull
  | JBool bool
  | JNum jsnum
  | JStr string
  | JArr "jsval list"

text \<open>Addition of numbers (IEEE rules for the non-finite values).\<close>

fun num_add :: "jsnum \<Rightarrow> jsnum \<Rightarrow> jsnum" where
  "num_add (Fin a) (Fin b) = Fin (a + b)"
| "num_add NaN _ = NaN"
| "num_add _ NaN = NaN"
| "num_add PosInf NegInf = NaN"
| "num_add NegInf PosInf = NaN"
| "num_add PosInf _ = PosInf"
| "num_add _ PosInf = PosInf"
| "num_add NegInf _ = NegInf"
| "num_add _ NegInf = NegInf"

text \<open>The relational operators: every comparison with \<^verbatim>\<open>NaN\<close> is false.\<close>

fun num_lt :: "jsnum \<Rightarrow> jsnum \<Rightarrow> bool" where
  "num_lt (Fin a) (Fin b) = (a < b)"
| "num_lt NaN _ = False"
| "num_lt _ NaN = False"
| "num_lt _ NegInf = False"
| "num_lt NegInf _ = True"
| "num_lt PosInf _ = False"
| "num_lt (Fin a) PosInf = True"

fun num_le :: "jsnum \<Rightarrow> jsnum \<Rightarrow> bool" where
  "num_le (Fin a) (Fin b) = (a \<le> b)"
| "num_le NaN _ = False"
| "num_le _ NaN = False"
| "num_le NegInf _ = True"
| "num_le _ PosInf = True"
| "num_le PosInf _ = False"
| "num_le (Fin a) NegInf = False"

definition num_gt :: "jsnum \<Rightarrow> jsnum \<Rightarrow> bool" where
  "num_gt a b = num_lt b a"

definition num_ge :: "jsnum \<Rightarrow> jsnum \<Rightarrow> bool" where
  "num_ge a b = num_le b a"

text \<open>\<^verbatim>\<open>Array.isArray(v)\<close>, \<^verbatim>\<open>typeof v === 'number'\<close> and the truthiness of a value.\<close>

fun isArray :: "jsval \<Rightarrow> bool" where
  "isArray (JArr _) = True"
| "isArray _ = False"

fun isNumber :: "jsval \<Rightarrow> bool" where
  "isNumber (JNum _) = True"
| "isNumber _ = False"

fun truthy :: "jsval \<Rightarrow> bool" where
  "truthy JUndefined = False"
| "truthy JNull = False"
| "truthy (JBool b) = b"
| "truthy (JNum (Fin n)) = (n \<noteq> 0)"
| "truthy (JNum NaN) = False"
| "truthy (JNum PosInf) = True"
| "truthy (JNum NegInf) = True"
| "truthy (JStr s) = (s \<noteq> [])"
| "truthy (JArr _) = True"

text \<open>
  Accessors used only behind the guards above: the elements of an array and the number
  inside a number value. Their fall-back results are never read by the engine, because
  \<open>validatePiece\<close> has run first.
\<close>

fun elems :: "jsval \<Rightarrow> jsval list" where
  "elems (JArr vs) = vs"
| "elems _ = []"

fun numOf :: "jsval \<Rightarrow> jsnum" where
  "numOf (JNum n) = n"
| "numOf _ = NaN"

section \<open>Shape table, configuration and game state\<close>

text \<open>
  The configuration value \<^verbatim>\<open>maxLevel\<close> and the fields \<^verbatim>\<open>score\<close>, \<^verbatim>\<open>level\<close>,
  \<^verbatim>\<open>dropInterval\<close> and \<^verbatim>\<open>highScore\<close> of the game state are finite numbers that may have a
  fractional part: \<^verbatim>\<open>validateConfig\<close> only checks the range of \<^verbatim>\<open>maxLevel\<close>, and the level,
  the drop interval and the score are computed from it. They are rationals here, with exact
  arithmetic. Board width and height are natural numbers: with a fractional part
  \<^verbatim>\<open>createBoard\<close> throws on the array length and no session comes to exist. The line count
  only ever grows by whole counts and is an integer.
\<close>

text \<open>The constant \<^verbatim>\<open>SHAPES\<close>: seven shapes, each a list of rotation matrices.\<close>

definition SHAPES :: "int list list list list" where
  "SHAPES =
   [ [ [[1, 1, 1], [0, 1, 0]],
       [[0, 1], [1, 1], [0, 1]],
       [[0, 1, 0], [1, 1, 1]],
       [[1, 0], [1, 1], [1, 0]] ],
     [ [[1, 0, 0], [1, 1, 1]],
       [[0, 1], [0, 1], [1, 1]],
       [[1, 1, 1], [0, 0, 1]],
       [[1, 1], [1, 0], [1, 0]] ],
     [ [[0, 0, 1], [1, 1, 1]],
       [[1, 1], [0, 1], [0, 1]],
       [[1, 1, 1], [1, 0, 0]],
       [[1, 0], [1, 0], [1, 1]] ],
     [ [[1, 1], [1, 1]] ],
     [ [[0, 1, 1], [1, 1, 0]],
       [[1, 0], [1, 1], [0, 1]] ],
     [ [[1, 1, 0], [0, 1, 1]],
       [[0, 1], [1, 1], [1, 0]] ],
     [ [[1, 1, 1, 1]],
       [[1], [1], [1], [1]] ] ]"

text \<open>A rotation matrix of the table as the JavaScript value stored in a piece.\<close>

definition matrix :: "int list list \<Rightarrow> jsval" where
  "matrix m = JArr (map (\<lambda>r. JArr (map (\<lambda>c. JNum (Fin c)) r)) m)"

record config =
  BOARD_WIDTH :: nat
  BOARD_HEIGHT :: nat
  BLOCK_SIZE :: nat
  MAX_LEVEL :: rat
  MAX_INACTIVITY :: int

record piece =
  shape :: jsval
  x :: jsval
  y :: jsval
  shapeIndex :: nat
  rotation :: nat

text \<open>
  The fields of \<^verbatim>\<open>gameState\<close> that the engine's rules read or write, and the
  \<^verbatim>\<open>localStorage\<close> entry \<^verbatim>\<open>tetrisHighScore\<close> (\<open>None\<close> when the key is absent).
  A board cell is \<open>0\<close> or a shape index plus one.
\<close>

record state =
  board :: "nat list list"
  currentPiece :: "piece option"
  score :: rat
  level :: rat
  lines :: int
  highScore :: rat
  dropCounter :: int
  dropInterval :: rat
  gameRunning :: bool
  gamePaused :: bool
  gameOver :: bool
  inactivityTimer :: int
  storage :: "string option"

datatype error =
    ValidationError
  | TypeError
  | SparseWrite
  | GameError string

section \<open>Piece validation and collision test\<close>

text \<open>
  \<^verbatim>\<open>validatePiece(piece)\<close>. \<open>None\<close> is a piece that is \<^verbatim>\<open>null\<close>, \<^verbatim>\<open>undefined\<close>
  or not an object. The checks are those of the source, in its order.
\<close>

fun validatePiece :: "piece option \<Rightarrow> bool" where
  "validatePiece None = False"
| "validatePiece (Some p) =
     (if \<not> isArray (shape p) then False
      else if \<not> isNumber (x p) \<or> \<not> isNumber (y p) then False
      else if length (elems (shape p)) = 0 then False
      else list_all (\<lambda>row. \<not> (\<not> isArray row \<or> length (elems row) = 0)) (elems (shape p)))"

text \<open>
  Reading the board at a computed position. The source reads \<^verbatim>\<open>board[newY]\<close> and
  \<^verbatim>\<open>board[newY][newX]\<close> only after it has checked both indices against the lengths;
  outside the range JavaScript yields \<^verbatim>\<open>undefined\<close>, which is falsy, and the
  functions below yield the empty row and the empty cell \<open>0\<close>.
\<close>

fun boardRow :: "nat list list \<Rightarrow> jsnum \<Rightarrow> nat list" where
  "boardRow b (Fin r) = (if 0 \<le> r \<and> r < int (length b) then b ! nat r else [])"
| "boardRow b _ = []"

fun boardCell :: "nat list list \<Rightarrow> jsnum \<Rightarrow> jsnum \<Rightarrow> nat" where
  "boardCell b newY (Fin c) =
     (if 0 \<le> c \<and> c < int (length (boardRow b newY)) then boardRow b newY ! nat c else 0)"
| "boardCell b newY _ = 0"

text \<open>The two tests the source makes for one occupied cell of the piece.\<close>

definition cellCollides :: "config \<Rightarrow> nat list list \<Rightarrow> jsnum \<Rightarrow> jsnum \<Rightarrow> bool" where
  "cellCollides cfg b newX newY =
     (if num_lt newX (Fin 0) \<or> num_ge newX (Fin (int (BOARD_WIDTH cfg))) \<or>
         num_ge newY (Fin (int (BOARD_HEIGHT cfg))) then True
      else if num_ge newY (Fin 0) \<and>
              num_lt newY (Fin (int (length b))) \<and>
              num_ge newX (Fin 0) \<and>
              num_lt newX (Fin (int (length (boardRow b newY)))) \<and>
              boardCell b newY newX \<noteq> 0 then True
      else False)"

text \<open>The inner loop over the columns of one row, from column \<open>col\<close> on.\<close>

fun scanCols ::
  "config \<Rightarrow> nat list list \<Rightarrow> jsnum \<times> jsnum \<Rightarrow> jsnum \<times> jsnum \<Rightarrow> nat \<Rightarrow> nat \<Rightarrow> jsval list \<Rightarrow> bool" where
  "scanCols cfg b pos off row col [] = False"
| "scanCols cfg b pos off row col (c # cs) =
     (if truthy c \<and>
         cellCollides cfg b
           (num_add (num_add (fst pos) (Fin (int col))) (fst off))
           (num_add (num_add (snd pos) (Fin (int row))) (snd off))
      then True
      else scanCols cfg b pos off row (Suc col) cs)"

text \<open>
  The outer loop over the rows, from row \<open>row\<close> on. A row that is not an array makes the
  source throw inside its \<^verbatim>\<open>try\<close>; the handler answers \<^verbatim>\<open>true\<close>.
\<close>

fun scanRows ::
  "config \<Rightarrow> nat list list \<Rightarrow> jsnum \<times> jsnum \<Rightarrow> jsnum \<times> jsnum \<Rightarrow> nat \<Rightarrow> jsval list \<Rightarrow> bool" where
  "scanRows cfg b pos off row [] = False"
| "scanRows cfg b pos off row (r # rs) =
     (if \<not> isArray r then True
      else if scanCols cfg b pos off row 0 (elems r) then True
      else scanRows cfg b pos off (Suc row) rs)"

text \<open>\<^verbatim>\<open>isCollision(piece, offsetX, offsetY)\<close> on the board \<open>b\<close>.\<close>

definition isCollision ::
  "config \<Rightarrow> nat list list \<Rightarrow> piece option \<Rightarrow> jsval \<Rightarrow> jsval \<Rightarrow> bool" where
  "isCollision cfg b pc offsetX offsetY =
     (if \<not> validatePiece pc then True
      else if \<not> isNumber offsetX \<or> \<not> isNumber offsetY then True
      else
        (let p = the pc; px = numOf (x p); py = numOf (y p) in
         if num_lt px (Fin (- 10)) \<or> num_gt px (Fin (int (BOARD_WIDTH cfg) + 10)) \<or>
            num_lt py (Fin (- 10)) \<or> num_gt py (Fin (int (BOARD_HEIGHT cfg) + 10))
         then True
         else scanRows cfg b (px, py) (numOf offsetX, numOf offsetY) 0 (elems (shape p))))"


section \<open>High-score store\<close>

text \<open>
  The built-ins \<^verbatim>\<open>Number.prototype.toString()\<close> and \<^verbatim>\<open>parseInt(s, 10)\<close>, for the
  values of \<open>jsnum\<close>. The decimal form below is what JavaScript prints for an integer of
  magnitude below \<open>10^21\<close>; the store only ever prints numbers up to \<open>999999999\<close>.
\<close>

definition digitChar :: "nat \<Rightarrow> char" where
  "digitChar d = ''0123456789'' ! d"

function decimal :: "nat \<Rightarrow> string" where
  "decimal n = (if n < 10 then [digitChar n] else decimal (n div 10) @ [digitChar (n mod 10)])"
  by pat_completeness auto
termination
  by (relation "measure (\<lambda>n. n)") auto

declare decimal.simps [simp del]

fun numToString :: "jsnum \<Rightarrow> string" where
  "numToString (Fin n) = (if n < 0 then CHR ''-'' # decimal (nat (- n)) else decimal (nat n))"
| "numToString NaN = ''NaN''"
| "numToString PosInf = ''Infinity''"
| "numToString NegInf = ''-Infinity''"

definition isDigit :: "char \<Rightarrow> bool" where
  "isDigit c = (c \<in> set ''0123456789'')"

definition digitVal :: "char \<Rightarrow> nat" where
  "digitVal c = of_char c - 48"

definition isWhiteSpace :: "char \<Rightarrow> bool" where
  "isWhiteSpace c = (of_char c \<in> {9, 10, 11, 12, 13, 32 :: nat})"

definition digitsValue :: "string \<Rightarrow> nat" where
  "digitsValue ds = foldl (\<lambda>a c. 10 * a + digitVal c) 0 ds"

text \<open>
  \<^verbatim>\<open>parseInt(s, 10)\<close>: leading white space is skipped, one sign is read, then the
  longest run of decimal digits; without a digit the result is \<^verbatim>\<open>NaN\<close>. White space
  is the white space of ASCII.
\<close>

definition parseInt10 :: "string \<Rightarrow> jsnum" where
  "parseInt10 s =
     (let t = dropWhile isWhiteSpace s;
          neg = (t \<noteq> [] \<and> hd t = CHR ''-'');
          u = (if t \<noteq> [] \<and> (hd t = CHR ''-'' \<or> hd t = CHR ''+'') then tl t else t);
          ds = takeWhile isDigit u
      in if ds = [] then NaN
         else if neg then Fin (- int (digitsValue ds)) else Fin (int (digitsValue ds)))"

fun isNaN :: "jsnum \<Rightarrow> bool" where
  "isNaN NaN = True"
| "isNaN _ = False"

text \<open>\<^verbatim>\<open>Math.floor\<close> leaves an integer and a non-finite number as they are.\<close>

definition mathFloor :: "jsnum \<Rightarrow> jsnum" where
  "mathFloor n = n"

text \<open>
  \<^verbatim>\<open>loadHighScore()\<close>: the number returned and the store afterwards. The store is
  taken to be available: reading, writing and removing the entry do not throw.
\<close>

definition loadHighScore :: "string option \<Rightarrow> jsnum \<times> string option" where
  "loadHighScore store =
     (case store of
        None \<Rightarrow> (Fin 0, store)
      | Some stored \<Rightarrow>
          (let sc = parseInt10 stored in
           if isNaN sc \<or> num_lt sc (Fin 0) \<or> num_gt sc (Fin 999999999)
           then (Fin 0, None)
           else (sc, store)))"

text \<open>
  \<^verbatim>\<open>saveHighScore(score)\<close>: the store afterwards. The \<^verbatim>\<open>throw\<close> of the guard is
  caught by the method itself, which then only logs.
\<close>

definition saveHighScore :: "jsval \<Rightarrow> string option \<Rightarrow> string option" where
  "saveHighScore sc store =
     (if \<not> isNumber sc \<or> num_lt (numOf sc) (Fin 0) \<or> num_gt (numOf sc) (Fin 999999999)
      then store
      else Some (numToString (mathFloor (numOf sc))))"

text \<open>
  \<^verbatim>\<open>saveHighScore(score)\<close> for a finite number \<open>q\<close>, the only kind of argument that the
  engine itself passes: the type test succeeds, the guard compares \<open>q\<close>, and the text written
  is that of \<^verbatim>\<open>Math.floor(q)\<close>. On an integer it is \<open>saveHighScore\<close> above.
\<close>

definition saveNumber :: "rat \<Rightarrow> string option \<Rightarrow> string option" where
  "saveNumber q store =
     (if q < 0 \<or> q > 999999999
      then store
      else Some (numToString (Fin \<lfloor>q\<rfloor>)))"

text \<open>
  The number that \<open>loadHighScore\<close> returns, as a field value. It is always an integer of the
  range (lemma \<open>load_range\<close> below), so the second equation is never used.
\<close>

fun finiteOf :: "jsnum \<Rightarrow> rat" where
  "finiteOf (Fin n) = of_int n"
| "finiteOf _ = 0"

section \<open>Engine operations\<close>

definition createBoard :: "config \<Rightarrow> nat list list" where
  "createBoard cfg = replicate (BOARD_HEIGHT cfg) (replicate (BOARD_WIDTH cfg) 0)"


text \<open>\<^verbatim>\<open>createInitialGameState()\<close>, given the store; it reads the high score.\<close>

definition createInitialGameState :: "config \<Rightarrow> string option \<Rightarrow> state" where
  "createInitialGameState cfg store =
     \<lparr> board = createBoard cfg,
       currentPiece = None,
       score = 0,
       level = 1,
       lines = 0,
       highScore = finiteOf (fst (loadHighScore store)),
       dropCounter = 0,
       dropInterval = 1000,
       gameRunning = False,
       gamePaused = False,
       gameOver = False,
       inactivityTimer = 0,
       storage = snd (loadHighScore store) \<rparr>"

text \<open>\<^verbatim>\<open>endGame()\<close>.\<close>

definition endGame :: "state \<Rightarrow> state" where
  "endGame st =
     (let st1 = st\<lparr>gameOver := True, gameRunning := False\<rparr> in
      if score st1 > highScore st1
      then st1\<lparr>highScore := score st1,
               storage := saveNumber (score st1) (storage st1)\<rparr>
      else st1)"

text \<open>
  \<^verbatim>\<open>spawnPiece()\<close>. The two results of \<^verbatim>\<open>Math.floor(Math.random() * n)\<close> are the
  arguments \<open>shapeIndex\<close> and \<open>rotation\<close>. An index outside the table makes the source
  throw; its handler hands over to the error recovery, and the model returns the fault.
\<close>

definition spawnPiece :: "config \<Rightarrow> nat \<Rightarrow> nat \<Rightarrow> state \<Rightarrow> error + state" where
  "spawnPiece cfg shapeIndex' rotation' st =
     (if \<not> shapeIndex' < length SHAPES \<or> length (SHAPES ! shapeIndex') = 0
      then Inl (GameError ''Piece spawning error'')
      else if \<not> rotation' < length (SHAPES ! shapeIndex')
      then Inl (GameError ''Piece spawning error'')
      else
        (case SHAPES ! shapeIndex' ! rotation' of
           [] \<Rightarrow> Inl (GameError ''Piece spawning error'')
         | row0 # rest \<Rightarrow>
             (let selectedShape = row0 # rest;
                  st1 = st\<lparr>currentPiece := Some
                         \<lparr> shape = matrix selectedShape,
                           x = JNum (Fin (int (BOARD_WIDTH cfg div 2) - int (length row0 div 2))),
                           y = JNum (Fin 0),
                           shapeIndex = shapeIndex',
                           rotation = rotation' \<rparr>\<rparr>
              in if isCollision cfg (board st1) (currentPiece st1) (JNum (Fin 0)) (JNum (Fin 0))
                 then Inr (endGame st1)
                 else Inr st1)))"

text \<open>\<^verbatim>\<open>movePiece(dx, dy)\<close>: the boolean returned and the state afterwards.\<close>

definition movePiece :: "config \<Rightarrow> jsnum \<Rightarrow> jsnum \<Rightarrow> state \<Rightarrow> bool \<times> state" where
  "movePiece cfg dx dy st =
     (if currentPiece st = None \<or> \<not> validatePiece (currentPiece st) then (False, st)
      else if \<not> isCollision cfg (board st) (currentPiece st) (JNum dx) (JNum dy)
      then (let p = the (currentPiece st) in
            (True, st\<lparr>currentPiece := Some
                       (p\<lparr>x := JNum (num_add (numOf (x p)) dx),
                          y := JNum (num_add (numOf (y p)) dy)\<rparr>)\<rparr>))
      else (False, st))"

text \<open>\<^verbatim>\<open>rotatePiece()\<close>.\<close>

definition rotatePiece :: "config \<Rightarrow> state \<Rightarrow> error + state" where
  "rotatePiece cfg st =
     (if currentPiece st = None \<or> \<not> validatePiece (currentPiece st) then Inr st
      else
        (let p = the (currentPiece st) in
         if \<not> shapeIndex p < length SHAPES \<or> length (SHAPES ! shapeIndex p) = 0
         then Inl (GameError ''Piece rotation error'')
         else
           (let shapes = SHAPES ! shapeIndex p;
                newRotation = (rotation p + 1) mod length shapes;
                newShape = shapes ! newRotation;
                testPiece = p\<lparr>shape := matrix newShape, rotation := newRotation\<rparr>
            in if \<not> isCollision cfg (board st) (Some testPiece) (JNum (Fin 0)) (JNum (Fin 0))
               then Inr (st\<lparr>currentPiece := Some testPiece\<rparr>)
               else Inr st)))"

text \<open>
  The sweep of \<^verbatim>\<open>clearLines()\<close>: the loop variable \<open>row\<close>, the board and the counter
  \<^verbatim>\<open>linesCleared\<close>. After a removal the source increments \<open>row\<close> and the loop header
  decrements it, so the same index is examined again. Reading a row that the board does
  not have raises a \<^verbatim>\<open>TypeError\<close>. The loop need not end (a board of width \<open>0\<close>
  keeps it running), so the result is \<open>None\<close> when it does not return.
\<close>

definition isFull :: "nat list \<Rightarrow> bool" where
  "isFull r = list_all (\<lambda>cell. cell \<noteq> 0) r"

partial_function (option) clearLoop ::
  "config \<Rightarrow> int \<Rightarrow> nat list list \<Rightarrow> int \<Rightarrow> (error + nat list list \<times> int) option" where
  "clearLoop cfg row b linesCleared =
     (if row \<ge> 0 then
        (if \<not> nat row < length b then Some (Inl TypeError)
         else if isFull (b ! nat row)
         then clearLoop cfg row
                (replicate (BOARD_WIDTH cfg) 0 # (take (nat row) b @ drop (Suc (nat row)) b))
                (linesCleared + 1)
         else clearLoop cfg (row - 1) b linesCleared)
      else Some (Inr (b, linesCleared)))"

declare clearLoop.simps [code]

text \<open>
  \<^verbatim>\<open>clearLines()\<close>: the value of the call and the state afterwards. The method has no
  \<^verbatim>\<open>return\<close> statement, so the value of the call is \<^verbatim>\<open>undefined\<close>.
\<close>

definition clearLines :: "config \<Rightarrow> state \<Rightarrow> (error + jsval \<times> state) option" where
  "clearLines cfg st =
     (case clearLoop cfg (int (BOARD_HEIGHT cfg) - 1) (board st) 0 of
        None \<Rightarrow> None
      | Some (Inl e) \<Rightarrow> Some (Inl e)
      | Some (Inr (b, linesCleared)) \<Rightarrow>
          (let st1 = st\<lparr>board := b\<rparr> in
           if linesCleared > 0 then
             (let st2 = st1\<lparr>lines := lines st1 + linesCleared\<rparr>;
                  st3 = st2\<lparr>score := score st2 + of_int linesCleared * 100 * level st2\<rparr>;
                  st4 = st3\<lparr>level := min (MAX_LEVEL cfg) (of_int (lines st3 div 10 + 1))\<rparr>;
                  st5 = st4\<lparr>dropInterval := max 100 (1000 - (level st4 - 1) * 50)\<rparr>
              in Some (Inr (JUndefined, st5)))
           else Some (Inr (JUndefined, st1))))"
















section \<open>Sessions as sequences of engine operations\<close>














section \<open>Reference notions of the specification\<close>

text \<open>
  The collision rule in the words of the specification, for a piece at the integer
  position \<open>pos\<close> and the integer offset \<open>off\<close>: some occupied cell of the matrix maps to
  \<open>boardX < 0\<close>, \<open>boardX \<ge> width\<close> or \<open>boardY \<ge> height\<close>, or to an occupied cell of the
  board with \<open>boardY \<ge> 0\<close>. A board cell is occupied when it exists and is not zero.
\<close>

definition cellOccupied :: "nat list list \<Rightarrow> int \<Rightarrow> int \<Rightarrow> bool" where
  "cellOccupied b boardX boardY =
     (0 \<le> boardY \<and> boardY < int (length b) \<and> 0 \<le> boardX \<and>
      boardX < int (length (b ! nat boardY)) \<and> b ! nat boardY ! nat boardX \<noteq> 0)"

definition specCollision ::
  "config \<Rightarrow> nat list list \<Rightarrow> jsval list \<Rightarrow> int \<times> int \<Rightarrow> int \<times> int \<Rightarrow> bool" where
  "specCollision cfg b rows pos off =
     (\<exists>r \<in> {0..<length rows}. \<exists>c \<in> {0..<length (elems (rows ! r))}.
        truthy (elems (rows ! r) ! c) \<and>
        (let boardX = fst pos + int c + fst off; boardY = snd pos + int r + snd off
         in boardX < 0 \<or> boardX \<ge> int (BOARD_WIDTH cfg) \<or> boardY \<ge> int (BOARD_HEIGHT cfg) \<or>
            (boardY \<ge> 0 \<and> cellOccupied b boardX boardY)))"

text \<open>
  The piece that a spawn produces for the shape \<open>si\<close> and the rotation \<open>rot\<close>:
  horizontally centred, \<open>x = floor(width / 2) - floor(matrixWidth / 2)\<close>, and \<open>y = 0\<close>.
\<close>

definition spawnedPiece :: "config \<Rightarrow> nat \<Rightarrow> nat \<Rightarrow> piece" where
  "spawnedPiece cfg si rot =
     \<lparr> shape = matrix (SHAPES ! si ! rot),
       x = JNum (Fin (int (BOARD_WIDTH cfg div 2) - int (length (hd (SHAPES ! si ! rot)) div 2))),
       y = JNum (Fin 0),
       shapeIndex = si,
       rotation = rot \<rparr>"

text \<open>
  The next listed rotation state of a piece: the matrix at the index
  \<open>(rotation + 1) mod rotationCount\<close> of its shape together with that index; position
  and shape identity stay.
\<close>

definition nextRotation :: "piece \<Rightarrow> piece" where
  "nextRotation p =
     p\<lparr>shape := matrix (SHAPES ! shapeIndex p ! ((rotation p + 1) mod length (SHAPES ! shapeIndex p))),
       rotation := (rotation p + 1) mod length (SHAPES ! shapeIndex p)\<rparr>"

section \<open>Concrete sessions\<close>

text \<open>The configuration that the constructor uses when none is given.\<close>

definition defaultConfig :: config where
  "defaultConfig =
     \<lparr> BOARD_WIDTH = 12, BOARD_HEIGHT = 20, BLOCK_SIZE = 20, MAX_LEVEL = 100,
       MAX_INACTIVITY = 60000 \<rparr>"

text \<open>The fresh state of a default session with an empty store.\<close>

definition freshState :: state where
  "freshState = createInitialGameState defaultConfig None"

text \<open>A default session whose two top rows are completely occupied.\<close>

definition blockedState :: state where
  "blockedState = freshState\<lparr>board := replicate 2 (replicate 12 1) @ replicate 18 (replicate 12 0)\<rparr>"

text \<open>
  The default session with the O-shape as the current piece, at row \<open>r\<close> of its spawn
  column; and one call \<^verbatim>\<open>movePiece(0, 1)\<close>, keeping only the state.
\<close>

definition stateO :: "int \<Rightarrow> state" where
  "stateO r = freshState\<lparr>currentPiece := Some ((spawnedPiece defaultConfig 3 0)\<lparr>y := JNum (Fin r)\<rparr>)\<rparr>"

definition stepDown :: "config \<Rightarrow> state \<Rightarrow> state" where
  "stepDown cfg st = snd (movePiece cfg (Fin 0) (Fin 1) st)"






text \<open>The default session with the T-shape as the current piece at its spawn position.\<close>

definition stateT :: state where
  "stateT = freshState\<lparr>currentPiece := Some (spawnedPiece defaultConfig 0 0)\<rparr>"

text \<open>
  Default sessions with full rows: one with the bottom row full after nine cleared lines,
  and one with two full rows around a row that has a single occupied cell.
\<close>

definition oneFullState :: state where
  "oneFullState =
     freshState\<lparr>board := replicate 19 (replicate 12 0) @ [replicate 12 1], score := 900, lines := 9\<rparr>"

definition twoFullState :: state where
  "twoFullState =
     freshState\<lparr>board := replicate 17 (replicate 12 0) @
                          [replicate 12 1, 2 # replicate 11 0, replicate 12 3]\<rparr>"

text \<open>The O-shape eleven rows above the board, and the O-shape at a position that is \<^verbatim>\<open>NaN\<close>.\<close>

definition pieceAbove :: piece where
  "pieceAbove = (spawnedPiece defaultConfig 3 0)\<lparr>y := JNum (Fin (- 11))\<rparr>"

definition pieceNaN :: piece where
  "pieceNaN = (spawnedPiece defaultConfig 3 0)\<lparr>x := JNum NaN\<rparr>"

section \<open>The collision test\<close>

lemma cellCollides_Fin:
  "cellCollides cfg b (Fin bx) (Fin by) \<longleftrightarrow>
     bx < 0 \<or> bx \<ge> int (BOARD_WIDTH cfg) \<or> by \<ge> int (BOARD_HEIGHT cfg) \<or>
     (by \<ge> 0 \<and> cellOccupied b bx by)"
  by (auto simp: cellCollides_def cellOccupied_def num_ge_def)

lemma ex_below_Suc: "(\<exists>j<Suc n. P j) \<longleftrightarrow> P 0 \<or> (\<exists>j<n. P (Suc j))"
  by (auto simp: less_Suc_eq_0_disj)

lemma scanCols_iff:
  "scanCols cfg b pos off row col cs \<longleftrightarrow>
     (\<exists>j<length cs. truthy (cs ! j) \<and>
        cellCollides cfg b
          (num_add (num_add (fst pos) (Fin (int (col + j)))) (fst off))
          (num_add (num_add (snd pos) (Fin (int row))) (snd off)))"
proof (induction cs arbitrary: col)
  case Nil
  show ?case by simp
next
  case (Cons c cs)
  show ?case
    by (auto simp: Cons.IH ex_below_Suc add.left_commute)
qed

lemma scanRows_iff:
  "list_all isArray rs \<Longrightarrow>
   scanRows cfg b pos off row rs \<longleftrightarrow>
     (\<exists>i<length rs. scanCols cfg b pos off (row + i) 0 (elems (rs ! i)))"
proof (induction rs arbitrary: row)
  case Nil
  show ?case by simp
next
  case (Cons r rs)
  then show ?case
    by (simp add: ex_below_Suc)
qed

text \<open>
  After \<open>validatePiece\<close> every row is an array, so the \<^verbatim>\<open>throw\<close> inside the row
  iteration of \<open>isCollision\<close> is never reached, and \<open>mergePiece\<close> finds a length on
  every row.
\<close>

lemma validatePiece_rows:
  "validatePiece (Some p) \<Longrightarrow> list_all isArray (elems (shape p))"
  by (auto simp: list_all_iff split: if_splits)

lemma defaultConfig_sel:
  "BOARD_WIDTH defaultConfig = 12" "BOARD_HEIGHT defaultConfig = 20" "MAX_LEVEL defaultConfig = 100"
  by (simp_all add: defaultConfig_def)

lemma freshState_board: "board freshState = replicate 20 (replicate 12 0)"
  by (simp add: freshState_def createInitialGameState_def createBoard_def defaultConfig_sel)

lemma SHAPES_3: "SHAPES ! 3 ! 0 = [[1, 1], [1, 1]]"
  by (simp add: SHAPES_def)

lemma spawned_O:
  "spawnedPiece defaultConfig 3 0 =
     \<lparr> shape = JArr [JArr [JNum (Fin 1), JNum (Fin 1)], JArr [JNum (Fin 1), JNum (Fin 1)]],
       x = JNum (Fin 5), y = JNum (Fin 0), shapeIndex = 3, rotation = 0 \<rparr>"
  by (simp add: spawnedPiece_def SHAPES_3 matrix_def defaultConfig_sel)

text \<open>
  Claim C2, as amended. For a piece that passes \<open>validatePiece\<close> and has integer
  coordinates, and for integer offsets, the collision test answers true exactly when the
  anchor of the piece lies outside the band \<open>-10 \<le> x \<le> width + 10\<close>,
  \<open>-10 \<le> y \<le> height + 10\<close> that the test checks first, or some occupied cell maps to
  \<open>boardX < 0\<close>, \<open>boardX \<ge> width\<close>, \<open>boardY \<ge> height\<close>, or to an occupied board cell with
  \<open>boardY \<ge> 0\<close>. Inside the band the test is therefore exactly the rule of the
  specification; cells with \<open>boardY < 0\<close> are exempt from the occupancy check only.
\<close>

theorem isCollision_spec:
  assumes "validatePiece (Some p)"
    and "x p = JNum (Fin px)" and "y p = JNum (Fin py)"
  shows "isCollision cfg b (Some p) (JNum (Fin ox)) (JNum (Fin oy)) \<longleftrightarrow>
           (px < - 10 \<or> px > int (BOARD_WIDTH cfg) + 10 \<or>
            py < - 10 \<or> py > int (BOARD_HEIGHT cfg) + 10) \<or>
           specCollision cfg b (elems (shape p)) (px, py) (ox, oy)"
proof -
  have rows: "list_all isArray (elems (shape p))"
    using assms(1) by (rule validatePiece_rows)
  have scan: "scanRows cfg b (Fin px, Fin py) (Fin ox, Fin oy) 0 (elems (shape p)) \<longleftrightarrow>
              specCollision cfg b (elems (shape p)) (px, py) (ox, oy)"
    unfolding scanRows_iff[OF rows] scanCols_iff specCollision_def
    by (simp add: cellCollides_Fin Bex_def Let_def)
  show ?thesis
    using assms scan
    by (simp add: isCollision_def num_gt_def Let_def del: validatePiece.simps)
qed

text \<open>
  The O-shape at its spawn position on the empty default board, moved down by nineteen
  rows: its cells reach row \<open>20\<close>, and the test and the rule both report a collision.
\<close>

theorem isCollision_spec_witness:
  "isCollision defaultConfig (board freshState) (Some (spawnedPiece defaultConfig 3 0))
      (JNum (Fin 0)) (JNum (Fin 19)) \<and>
   specCollision defaultConfig (board freshState) (elems (shape (spawnedPiece defaultConfig 3 0)))
      (5, 0) (0, 19)"
  using isCollision_spec[of "spawnedPiece defaultConfig 3 0" 5 0 defaultConfig "board freshState" 0 19]
  by (simp add: spawned_O specCollision_def defaultConfig_sel atLeastLessThanSuc)

text \<open>
  Claim C2 as stated fails outside the band: the O-shape anchored at \<open>(5, -11)\<close> and
  tested at the offset \<open>(0, 11)\<close> maps onto rows \<open>0\<close> and \<open>1\<close> of the empty board, where the
  rule of the specification sees no collision, and the test answers true.
\<close>

theorem isCollision_spec_counterexample:
  "\<not> (isCollision defaultConfig (board freshState) (Some pieceAbove) (JNum (Fin 0)) (JNum (Fin 11))
        \<longleftrightarrow> specCollision defaultConfig (board freshState) (elems (shape pieceAbove)) (5, - 11) (0, 11))"
  by (simp add: pieceAbove_def spawned_O specCollision_def defaultConfig_sel atLeastLessThanSuc
      isCollision_def freshState_board cellOccupied_def)

text \<open>
  Malformed pieces. A piece that fails \<open>validatePiece\<close> (no object, no matrix, an empty
  matrix, a row that is not an array or is empty, a coordinate that is not a number)
  collides, and so does a piece with an infinite coordinate.
\<close>

lemma isCollision_invalid:
  "\<not> validatePiece pc \<Longrightarrow> isCollision cfg b pc ox oy"
  by (simp add: isCollision_def)

lemma isCollision_infinite:
  "x p = JNum PosInf \<or> x p = JNum NegInf \<or> y p = JNum PosInf \<or> y p = JNum NegInf
   \<Longrightarrow> isCollision cfg b (Some p) ox oy"
  by (cases "x p"; cases "y p") (auto simp add: isCollision_def num_gt_def Let_def split: jsnum.splits)

text \<open>
  Claim C3 at the coordinate \<^verbatim>\<open>NaN\<close>. The O-shape with \<open>x = NaN\<close> on the empty default
  board passes \<open>validatePiece\<close> (its \<open>x\<close> is of type number) and the band check (every
  comparison with \<^verbatim>\<open>NaN\<close> is false), no cell test fires, and the collision test answers
  false where the claim requires true.
\<close>

theorem isCollision_NaN_position:
  "isCollision defaultConfig (board freshState) (Some pieceNaN) (JNum (Fin 0)) (JNum (Fin 0)) = False"
  by (simp add: pieceNaN_def spawned_O defaultConfig_sel
      isCollision_def freshState_board cellCollides_def num_gt_def num_ge_def)

text \<open>The piece of that call passes the validation, and both offsets are numbers.\<close>

theorem isCollision_NaN_position_witness:
  "validatePiece (Some pieceNaN) \<and> isNumber (JNum (Fin 0)) \<and>
   \<not> isCollision defaultConfig (board freshState) (Some pieceNaN) (JNum (Fin 0)) (JNum (Fin 0))"
  using isCollision_NaN_position by (simp add: pieceNaN_def spawned_O)

section \<open>Spawning and game over\<close>

lemma SHAPES_all:
  "\<forall>s \<in> set SHAPES. s \<noteq> [] \<and> (\<forall>m \<in> set s. m \<noteq> [] \<and> (\<forall>r \<in> set m. r \<noteq> []))"
  by (simp add: SHAPES_def)

lemma SHAPES_shape_nonempty:
  assumes "si < length SHAPES"
  shows "SHAPES ! si \<noteq> []"
proof -
  have "SHAPES ! si \<in> set SHAPES" using assms by (rule nth_mem)
  with SHAPES_all show ?thesis by simp
qed

lemma SHAPES_matrix_nonempty:
  assumes "si < length SHAPES" and "rot < length (SHAPES ! si)"
  shows "SHAPES ! si ! rot \<noteq> []"
proof -
  have 1: "SHAPES ! si \<in> set SHAPES" using assms(1) by (rule nth_mem)
  have 2: "SHAPES ! si ! rot \<in> set (SHAPES ! si)" using assms(2) by (rule nth_mem)
  from SHAPES_all 1 have "\<forall>m \<in> set (SHAPES ! si). m \<noteq> []" by simp
  with 2 show ?thesis by simp
qed

lemma endGame_fields:
  "gameOver (endGame st)" "\<not> gameRunning (endGame st)"
  "currentPiece (endGame st) = currentPiece st" "board (endGame st) = board st"
  "level (endGame st) = level st" "lines (endGame st) = lines st"
  "dropInterval (endGame st) = dropInterval st"
  by (simp_all add: endGame_def Let_def)

lemma spawnPiece_eq:
  assumes "si < length SHAPES" and "rot < length (SHAPES ! si)"
  shows "spawnPiece cfg si rot st =
           (if isCollision cfg (board st) (Some (spawnedPiece cfg si rot)) (JNum (Fin 0)) (JNum (Fin 0))
            then Inr (endGame (st\<lparr>currentPiece := Some (spawnedPiece cfg si rot)\<rparr>))
            else Inr (st\<lparr>currentPiece := Some (spawnedPiece cfg si rot)\<rparr>))"
proof -
  from assms obtain row0 rest where m: "SHAPES ! si ! rot = row0 # rest"
    using SHAPES_matrix_nonempty by (cases "SHAPES ! si ! rot") auto
  from assms have ne: "length (SHAPES ! si) \<noteq> 0" by auto
  show ?thesis
    using assms ne by (simp add: spawnPiece_def m spawnedPiece_def Let_def)
qed

text \<open>
  Claim C1, as amended. For every state, and for every shape and rotation that the random
  draws can produce, if the spawned piece (horizontally centred, \<open>y = 0\<close>) collides at zero
  offset, then \<open>spawnPiece\<close> returns with \<open>gameOver\<close> set and \<open>gameRunning\<close> cleared, and
  the spawned piece stays installed as the current piece: the source assigns
  \<^verbatim>\<open>currentPiece\<close> before it tests the collision, and \<^verbatim>\<open>endGame()\<close> does not clear it.
\<close>

theorem spawnPiece_blocked:
  assumes "si < length SHAPES" and "rot < length (SHAPES ! si)"
    and "isCollision cfg (board st) (Some (spawnedPiece cfg si rot)) (JNum (Fin 0)) (JNum (Fin 0))"
  shows "\<exists>st'. spawnPiece cfg si rot st = Inr st' \<and> gameOver st' \<and> \<not> gameRunning st' \<and>
               currentPiece st' = Some (spawnedPiece cfg si rot)"
  using assms by (simp add: spawnPiece_eq endGame_fields)

lemma length_SHAPES: "length SHAPES = 7" "length (SHAPES ! 3) = 1" "length (SHAPES ! 0) = 4"
  by (simp_all add: SHAPES_def)

lemma blocked_collides:
  "isCollision defaultConfig (board blockedState) (Some (spawnedPiece defaultConfig 3 0))
     (JNum (Fin 0)) (JNum (Fin 0))"
  by (simp add: spawned_O isCollision_def blockedState_def defaultConfig_sel num_gt_def
      cellCollides_def num_ge_def nth_append)

text \<open>The O-shape spawned onto the default board whose two top rows are occupied.\<close>

theorem spawnPiece_blocked_witness:
  "\<exists>st'. spawnPiece defaultConfig 3 0 blockedState = Inr st' \<and> gameOver st' \<and> \<not> gameRunning st' \<and>
         currentPiece st' = Some (spawnedPiece defaultConfig 3 0)"
  using spawnPiece_blocked[of 3 0 defaultConfig blockedState] blocked_collides
  by (simp add: length_SHAPES)

text \<open>
  Claim C1 as stated fails: in the same session the spawned piece collides, and after
  \<open>spawnPiece\<close> the current piece is that piece, not absent.
\<close>

theorem spawnPiece_blocked_counterexample:
  "isCollision defaultConfig (board blockedState) (Some (spawnedPiece defaultConfig 3 0))
     (JNum (Fin 0)) (JNum (Fin 0)) \<and>
   map_sum id currentPiece (spawnPiece defaultConfig 3 0 blockedState)
     = Inr (Some (spawnedPiece defaultConfig 3 0))"
  using blocked_collides by (simp add: spawnPiece_eq length_SHAPES endGame_fields)

section \<open>Rotation\<close>

text \<open>
  Claim C7. For every current piece that passes \<open>validatePiece\<close> and carries a shape index
  of the table, \<open>rotatePiece\<close> returns without a fault, and the state afterwards is the
  state before when the next rotation state collides at zero offset, and otherwise the state
  before with exactly the next rotation state installed as the current piece: its matrix
  and its rotation index \<open>(rotation + 1) mod rotationCount\<close> together, position and shape
  identity unchanged.
\<close>

theorem rotatePiece_spec:
  assumes "currentPiece st = Some p" and "validatePiece (Some p)" and "shapeIndex p < length SHAPES"
  shows "rotatePiece cfg st =
           Inr (if isCollision cfg (board st) (Some (nextRotation p)) (JNum (Fin 0)) (JNum (Fin 0))
                then st else st\<lparr>currentPiece := Some (nextRotation p)\<rparr>) \<and>
         x (nextRotation p) = x p \<and> y (nextRotation p) = y p \<and>
         shapeIndex (nextRotation p) = shapeIndex p \<and>
         rotation (nextRotation p) = (rotation p + 1) mod length (SHAPES ! shapeIndex p) \<and>
         shape (nextRotation p) = matrix (SHAPES ! shapeIndex p ! rotation (nextRotation p))"
proof -
  from assms(3) have "length (SHAPES ! shapeIndex p) \<noteq> 0"
    using SHAPES_shape_nonempty by simp
  then show ?thesis
    using assms by (simp add: rotatePiece_def nextRotation_def Let_def del: validatePiece.simps)
qed

lemma spawned_T:
  "spawnedPiece defaultConfig 0 0 =
     \<lparr> shape = JArr [JArr [JNum (Fin 1), JNum (Fin 1), JNum (Fin 1)],
                     JArr [JNum (Fin 0), JNum (Fin 1), JNum (Fin 0)]],
       x = JNum (Fin 5), y = JNum (Fin 0), shapeIndex = 0, rotation = 0 \<rparr>"
  by (simp add: spawnedPiece_def SHAPES_def matrix_def defaultConfig_sel)

lemma next_T:
  "nextRotation (spawnedPiece defaultConfig 0 0) =
     \<lparr> shape = JArr [JArr [JNum (Fin 0), JNum (Fin 1)],
                     JArr [JNum (Fin 1), JNum (Fin 1)],
                     JArr [JNum (Fin 0), JNum (Fin 1)]],
       x = JNum (Fin 5), y = JNum (Fin 0), shapeIndex = 0, rotation = 1 \<rparr>"
  by (simp add: nextRotation_def spawned_T) (simp add: SHAPES_def matrix_def)

lemma next_T_free:
  "\<not> isCollision defaultConfig (board freshState) (Some (nextRotation (spawnedPiece defaultConfig 0 0)))
       (JNum (Fin 0)) (JNum (Fin 0))"
  by (simp add: next_T isCollision_def freshState_board defaultConfig_sel num_gt_def
      cellCollides_def num_ge_def)

text \<open>The T-shape at its spawn position on the empty default board turns to its second state.\<close>

theorem rotatePiece_spec_witness:
  "rotatePiece defaultConfig stateT =
     Inr (stateT\<lparr>currentPiece := Some (nextRotation (spawnedPiece defaultConfig 0 0))\<rparr>)"
proof -
  have b: "board stateT = board freshState" by (simp add: stateT_def)
  have c: "currentPiece stateT = Some (spawnedPiece defaultConfig 0 0)" by (simp add: stateT_def)
  have v: "validatePiece (Some (spawnedPiece defaultConfig 0 0))" by (simp add: spawned_T)
  have i: "shapeIndex (spawnedPiece defaultConfig 0 0) < length SHAPES"
    by (simp add: spawned_T length_SHAPES)
  show ?thesis
    using rotatePiece_spec[OF c v i, of defaultConfig] next_T_free by (simp add: b)
qed

section \<open>Falling on an empty board\<close>

lemma stateO_fields:
  "board (stateO r) = replicate 20 (replicate 12 0)"
  "currentPiece (stateO r) =
     Some \<lparr> shape = JArr [JArr [JNum (Fin 1), JNum (Fin 1)], JArr [JNum (Fin 1), JNum (Fin 1)]],
            x = JNum (Fin 5), y = JNum (Fin r), shapeIndex = 3, rotation = 0 \<rparr>"
  by (simp_all add: stateO_def spawned_O freshState_board)

lemma stateO_collision:
  "isCollision defaultConfig (board (stateO r)) (currentPiece (stateO r)) (JNum (Fin 0)) (JNum (Fin 1))
     \<longleftrightarrow> r < - 10 \<or> 18 \<le> r"
  by (auto simp add: stateO_fields isCollision_def defaultConfig_sel num_gt_def
      cellCollides_def num_ge_def)

lemma movePiece_stateO:
  "movePiece defaultConfig (Fin 0) (Fin 1) (stateO r) =
     (if r < - 10 \<or> 18 \<le> r then (False, stateO r) else (True, stateO (r + 1)))"
proof -
  have v: "validatePiece (currentPiece (stateO r))" by (simp add: stateO_fields)
  have n: "currentPiece (stateO r) \<noteq> None" by (simp add: stateO_fields)
  have u: "(stateO r)\<lparr>currentPiece := Some ((the (currentPiece (stateO r)))
              \<lparr>x := JNum (num_add (numOf (x (the (currentPiece (stateO r))))) (Fin 0)),
               y := JNum (num_add (numOf (y (the (currentPiece (stateO r))))) (Fin 1))\<rparr>)\<rparr>
           = stateO (r + 1)"
    by (simp add: stateO_def spawned_O)
  show ?thesis
    unfolding movePiece_def Let_def u using v n stateO_collision[of r] by auto
qed

lemma stepDown_stateO:
  "k \<le> 18 \<Longrightarrow> (stepDown defaultConfig ^^ k) (stateO 0) = stateO (int k)"
proof (induction k)
  case 0
  show ?case by simp
next
  case (Suc k)
  then show ?case by (simp add: stepDown_def movePiece_stateO add.commute)
qed

lemma spawn_O_fresh: "spawnPiece defaultConfig 3 0 freshState = Inr (stateO 0)"
proof -
  have "\<not> isCollision defaultConfig (board freshState) (Some (spawnedPiece defaultConfig 3 0))
          (JNum (Fin 0)) (JNum (Fin 0))"
    by (simp add: spawned_O isCollision_def freshState_board defaultConfig_sel num_gt_def
        cellCollides_def num_ge_def)
  then show ?thesis
    by (simp add: spawnPiece_eq length_SHAPES stateO_def spawned_O)
qed

text \<open>
  Claim C9. On the empty board of width 12 and height 20 the spawn of shape index 3 installs
  the O-shape at column 5 and row 0. Of nineteen consecutive calls \<^verbatim>\<open>movePiece(0, 1)\<close>
  the first eighteen (\<open>height - 2\<close>) return true and the nineteenth returns false, and
  that failing call leaves the state, and with it the piece, unchanged.
\<close>

theorem O_piece_falls_18_rows:
  "spawnPiece defaultConfig 3 0 freshState = Inr (stateO 0) \<and>
   map (\<lambda>k. fst (movePiece defaultConfig (Fin 0) (Fin 1) ((stepDown defaultConfig ^^ k) (stateO 0))))
       [0..<19] = replicate 18 True @ [False] \<and>
   movePiece defaultConfig (Fin 0) (Fin 1) ((stepDown defaultConfig ^^ 18) (stateO 0))
     = (False, (stepDown defaultConfig ^^ 18) (stateO 0))"
proof -
  have ok: "fst (movePiece defaultConfig (Fin 0) (Fin 1) ((stepDown defaultConfig ^^ k) (stateO 0)))
              = (k < 18)" if "k \<le> 18" for k
    using that by (simp add: stepDown_stateO movePiece_stateO)
  have "map (\<lambda>k. fst (movePiece defaultConfig (Fin 0) (Fin 1) ((stepDown defaultConfig ^^ k) (stateO 0))))
          [0..<19] = map (\<lambda>k. k < 18) [0..<19]"
    by (rule map_cong) (auto simp: ok)
  also have "\<dots> = replicate 18 True @ [False]"
    by code_simp
  finally have m: "map (\<lambda>k. fst (movePiece defaultConfig (Fin 0) (Fin 1)
      ((stepDown defaultConfig ^^ k) (stateO 0)))) [0..<19] = replicate 18 True @ [False]" .
  have l: "movePiece defaultConfig (Fin 0) (Fin 1) ((stepDown defaultConfig ^^ 18) (stateO 0))
             = (False, (stepDown defaultConfig ^^ 18) (stateO 0))"
    using stepDown_stateO[of 18] by (simp add: movePiece_stateO)
  show ?thesis using spawn_O_fresh m l by simp
qed

text \<open>
  The piece of this scenario passes the validation at its spawn position, and the call
  after the eighteenth step is the one that fails.
\<close>

theorem O_piece_falls_18_rows_witness:
  "validatePiece (currentPiece (stateO 0)) \<and>
   spawnPiece defaultConfig 3 0 freshState = Inr (stateO 0) \<and>
   movePiece defaultConfig (Fin 0) (Fin 1) ((stepDown defaultConfig ^^ 18) (stateO 0))
     = (False, (stepDown defaultConfig ^^ 18) (stateO 0))"
  using O_piece_falls_18_rows by (simp add: stateO_fields)

section \<open>Line clearing\<close>

text \<open>One unfolding of the sweep for each way an iteration can go.\<close>

lemma clearLoop_done: "clearLoop cfg (- 1) b n = Some (Inr (b, n))"
  by (subst clearLoop.simps) simp

lemma clearLoop_full:
  "j < length b \<Longrightarrow> isFull (b ! j) \<Longrightarrow>
   clearLoop cfg (int j) b n =
     clearLoop cfg (int j) (replicate (BOARD_WIDTH cfg) 0 # (take j b @ drop (Suc j) b)) (n + 1)"
  by (subst clearLoop.simps) simp

lemma clearLoop_keep:
  "j < length b \<Longrightarrow> \<not> isFull (b ! j) \<Longrightarrow>
   clearLoop cfg (int j) b n = clearLoop cfg (int j - 1) b n"
  by (subst clearLoop.simps) simp

lemma clearLoop_missing:
  "\<not> j < length b \<Longrightarrow> clearLoop cfg (int j) b n = Some (Inl TypeError)"
  by (subst clearLoop.simps) simp

lemma emptyRow_not_full: "0 < w \<Longrightarrow> \<not> isFull (replicate w 0)"
  by (cases w) (simp_all add: isFull_def)

text \<open>
  The sweep over the rows \<open>0..k-1\<close> of a board with non-empty rows of width: it ends, the
  full rows among them are gone, as many empty rows stand on top, and the other rows keep
  their order. The induction is on the number of full rows still to be met plus \<open>k\<close>,
  which every iteration decreases (an inserted empty row is not full).
\<close>

lemma clearLoop_result:
  assumes "0 < BOARD_WIDTH cfg" and "k \<le> length b"
  shows "clearLoop cfg (int k - 1) b n =
           Some (Inr (replicate (length (filter isFull (take k b))) (replicate (BOARD_WIDTH cfg) 0)
                        @ filter (\<lambda>r. \<not> isFull r) (take k b) @ drop k b,
                      n + int (length (filter isFull (take k b)))))"
  using assms(2)
proof (induction "length (filter isFull (take k b)) + k" arbitrary: k b n rule: less_induct)
  case less
  show ?case
  proof (cases k)
    case 0
    then show ?thesis by (simp add: clearLoop_done)
  next
    case (Suc j)
    with less.prems have j: "j < length b" by simp
    have tk: "take (Suc j) b = take j b @ [b ! j]"
      using j by (simp add: take_Suc_conv_app_nth)
    show ?thesis
    proof (cases "isFull (b ! j)")
      case True
      let ?z = "replicate (BOARD_WIDTH cfg) (0::nat)"
      let ?b' = "?z # (take j b @ drop (Suc j) b)"
      have len: "Suc j \<le> length ?b'" using j by simp
      have tk': "take (Suc j) ?b' = ?z # take j b" using j by simp
      have dr': "drop (Suc j) ?b' = drop (Suc j) b" using j by simp
      have nz: "\<not> isFull ?z" using assms(1) by (rule emptyRow_not_full)
      have meas: "length (filter isFull (take (Suc j) ?b')) + Suc j
                    < length (filter isFull (take k b)) + k"
        unfolding tk' using True nz Suc tk by simp
      have "clearLoop cfg (int (Suc j) - 1) ?b' (n + 1) =
              Some (Inr (replicate (length (filter isFull (take (Suc j) ?b'))) ?z
                           @ filter (\<lambda>r. \<not> isFull r) (take (Suc j) ?b') @ drop (Suc j) ?b',
                         (n + 1) + int (length (filter isFull (take (Suc j) ?b')))))"
        using less.hyps[OF meas len] .
      then have "clearLoop cfg (int j) ?b' (n + 1) =
              Some (Inr (replicate (length (filter isFull (take j b))) ?z
                           @ ?z # filter (\<lambda>r. \<not> isFull r) (take j b) @ drop (Suc j) b,
                         (n + 1) + int (length (filter isFull (take j b)))))"
        unfolding tk' dr' using nz by simp
      then show ?thesis
        using True j Suc tk by (simp add: clearLoop_full replicate_app_Cons_same)
    next
      case False
      have meas: "length (filter isFull (take j b)) + j < length (filter isFull (take k b)) + k"
        using Suc tk by simp
      have "j \<le> length b" using j by simp
      from less.hyps[OF meas this]
      have "clearLoop cfg (int j - 1) b n =
              Some (Inr (replicate (length (filter isFull (take j b))) (replicate (BOARD_WIDTH cfg) 0)
                           @ filter (\<lambda>r. \<not> isFull r) (take j b) @ drop j b,
                         n + int (length (filter isFull (take j b)))))" .
      then show ?thesis
        using False j Suc tk by (simp add: clearLoop_keep Cons_nth_drop_Suc)
    qed
  qed
qed

lemma clearLoop_none_full:
  assumes "k \<le> length b" and "\<forall>r \<in> set (take k b). \<not> isFull r"
  shows "clearLoop cfg (int k - 1) b n = Some (Inr (b, n))"
  using assms
proof (induction k)
  case 0
  show ?case by (simp add: clearLoop_done)
next
  case (Suc j)
  then have j: "j < length b" by simp
  have tk: "take (Suc j) b = take j b @ [b ! j]"
    using j by (simp add: take_Suc_conv_app_nth)
  from Suc.prems(2) have nf: "\<not> isFull (b ! j)" and rest: "\<forall>r \<in> set (take j b). \<not> isFull r"
    unfolding tk by simp_all
  have "clearLoop cfg (int j - 1) b n = Some (Inr (b, n))"
    using Suc.IH j rest by simp
  then show ?case using j nf by (simp add: clearLoop_keep)
qed


lemma clearLines_eq:
  assumes "0 < BOARD_WIDTH cfg" and "length (board st) = BOARD_HEIGHT cfg"
  shows "clearLines cfg st =
           (let n = int (length (filter isFull (board st)));
                b' = replicate (length (filter isFull (board st))) (replicate (BOARD_WIDTH cfg) 0)
                       @ filter (\<lambda>r. \<not> isFull r) (board st)
            in Some (Inr (JUndefined,
                 if n > 0
                 then st\<lparr>board := b', lines := lines st + n,
                         score := score st + of_int n * 100 * level st,
                         level := min (MAX_LEVEL cfg) (of_int ((lines st + n) div 10 + 1)),
                         dropInterval :=
                           max 100 (1000 - (min (MAX_LEVEL cfg) (of_int ((lines st + n) div 10 + 1)) - 1) * 50)\<rparr>
                 else st\<lparr>board := b'\<rparr>)))"
proof -
  have "clearLoop cfg (int (BOARD_HEIGHT cfg) - 1) (board st) 0 =
          Some (Inr (replicate (length (filter isFull (board st))) (replicate (BOARD_WIDTH cfg) 0)
                       @ filter (\<lambda>r. \<not> isFull r) (board st),
                     int (length (filter isFull (board st)))))"
    using clearLoop_result[OF assms(1), of "BOARD_HEIGHT cfg" "board st" 0] assms(2) by simp
  then show ?thesis
    by (simp add: clearLines_def Let_def)
qed

text \<open>
  Claim C4, as amended. In a session with a positive board width and a board of \<open>height\<close>
  rows, \<open>clearLines\<close> returns; the board afterwards is the rows that were not full at call
  time, in their order and unchanged, below as many empty rows as there were full rows; the
  row count is \<open>height\<close>; and the number of rows cleared is added to \<open>lines\<close>. The call
  itself evaluates to \<^verbatim>\<open>undefined\<close>: the method returns no value.
\<close>

theorem clearLines_rows:
  assumes "0 < BOARD_WIDTH cfg" and "length (board st) = BOARD_HEIGHT cfg"
  shows "\<exists>st'. clearLines cfg st = Some (Inr (JUndefined, st')) \<and>
           board st' = replicate (length (filter isFull (board st))) (replicate (BOARD_WIDTH cfg) 0)
                         @ filter (\<lambda>r. \<not> isFull r) (board st) \<and>
           length (board st') = BOARD_HEIGHT cfg \<and>
           lines st' = lines st + int (length (filter isFull (board st)))"
proof -
  have "length (filter isFull (board st)) + length (filter (\<lambda>r. \<not> isFull r) (board st))
          = BOARD_HEIGHT cfg"
    using assms(2) sum_length_filter_compl[of isFull "board st"] by simp
  then show ?thesis
    by (auto simp add: clearLines_eq[OF assms] Let_def)
qed


text \<open>
  Claim C10. In a state whose board has at least \<open>height\<close> rows, none of them completely
  nonzero, \<open>clearLines\<close> returns and leaves the whole state unchanged: board, score, lines,
  level and drop interval included.
\<close>

theorem clearLines_no_full_row:
  assumes "BOARD_HEIGHT cfg \<le> length (board st)" and "\<forall>r \<in> set (board st). \<not> isFull r"
  shows "clearLines cfg st = Some (Inr (JUndefined, st))"
proof -
  have "\<forall>r \<in> set (take (BOARD_HEIGHT cfg) (board st)). \<not> isFull r"
    using assms(2) by (meson in_set_takeD)
  then have "clearLoop cfg (int (BOARD_HEIGHT cfg) - 1) (board st) 0 = Some (Inr (board st, 0))"
    using assms(1) by (rule clearLoop_none_full[rotated])
  then show ?thesis by (simp add: clearLines_def)
qed

lemma isFull_rows:
  "\<not> isFull (replicate 12 0)" "isFull (replicate 12 (Suc 0))" "isFull (replicate 12 3)"
  "\<not> isFull (2 # replicate 11 0)"
  by (simp_all add: isFull_def list_all_iff)

lemma oneFull_board:
  "length (board oneFullState) = 20"
  "filter isFull (board oneFullState) = [replicate 12 1]"
  "filter (\<lambda>r. \<not> isFull r) (board oneFullState) = replicate 19 (replicate 12 0)"
  by (simp_all add: oneFullState_def isFull_rows)

lemma twoFull_board:
  "length (board twoFullState) = 20"
  "filter isFull (board twoFullState) = [replicate 12 1, replicate 12 3]"
  "filter (\<lambda>r. \<not> isFull r) (board twoFullState) = replicate 17 (replicate 12 0) @ [2 # replicate 11 0]"
  by (simp_all add: twoFullState_def isFull_rows)

text \<open>Two full rows around a partly filled row: both go, the partly filled row sinks to the bottom.\<close>

theorem clearLines_rows_witness:
  "\<exists>st'. clearLines defaultConfig twoFullState = Some (Inr (JUndefined, st')) \<and>
          board st' = replicate 2 (replicate 12 0) @ replicate 17 (replicate 12 0) @ [2 # replicate 11 0] \<and>
          length (board st') = 20 \<and> lines st' = 2"
proof -
  have w: "0 < BOARD_WIDTH defaultConfig" by (simp add: defaultConfig_sel)
  have h: "length (board twoFullState) = BOARD_HEIGHT defaultConfig"
    by (simp add: defaultConfig_sel twoFull_board)
  have l: "lines twoFullState = 0"
    by (simp add: twoFullState_def freshState_def createInitialGameState_def)
  from clearLines_rows[OF w h] obtain st' where
    "clearLines defaultConfig twoFullState = Some (Inr (JUndefined, st'))"
    "board st' = replicate (length (filter isFull (board twoFullState)))
                   (replicate (BOARD_WIDTH defaultConfig) 0)
                 @ filter (\<lambda>r. \<not> isFull r) (board twoFullState)"
    "length (board st') = BOARD_HEIGHT defaultConfig"
    "lines st' = lines twoFullState + int (length (filter isFull (board twoFullState)))"
    by blast
  then show ?thesis
    by (simp add: defaultConfig_sel twoFull_board l numeral_2_eq_2)
qed

text \<open>
  Claim C4 as stated fails in its last part: with exactly one full row on the board, the
  call \<open>clearLines()\<close> evaluates to \<^verbatim>\<open>undefined\<close>, not to the number \<open>1\<close>.
\<close>

theorem clearLines_rows_counterexample:
  "length (filter isFull (board oneFullState)) = 1 \<and>
   map_option (map_sum id fst) (clearLines defaultConfig oneFullState) = Some (Inr JUndefined)"
  by (simp add: clearLines_eq defaultConfig_sel oneFull_board Let_def)


text \<open>The fresh default session has an empty board; clearing lines changes nothing.\<close>

theorem clearLines_no_full_row_witness:
  "clearLines defaultConfig freshState = Some (Inr (JUndefined, freshState))"
  using clearLines_no_full_row[of defaultConfig freshState]
  by (simp add: defaultConfig_sel freshState_board isFull_rows)

section \<open>The high-score store\<close>

lemma digitChar_props:
  assumes "d < 10"
  shows "isDigit (digitChar d)" and "digitVal (digitChar d) = d"
    and "\<not> isWhiteSpace (digitChar d)"
    and "digitChar d \<noteq> CHR ''-''" and "digitChar d \<noteq> CHR ''+''"
proof -
  from assms have "d = 0 \<or> d = 1 \<or> d = 2 \<or> d = 3 \<or> d = 4 \<or> d = 5 \<or> d = 6 \<or> d = 7 \<or> d = 8 \<or> d = 9"
    by arith
  then show "isDigit (digitChar d)" and "digitVal (digitChar d) = d"
    and "\<not> isWhiteSpace (digitChar d)"
    and "digitChar d \<noteq> CHR ''-''" and "digitChar d \<noteq> CHR ''+''"
    by (auto simp add: digitChar_def isDigit_def digitVal_def isWhiteSpace_def)
qed

lemma digitsValue_snoc: "digitsValue (ds @ [c]) = 10 * digitsValue ds + digitVal c"
  by (simp add: digitsValue_def)

lemma decimal_props:
  "decimal n \<noteq> [] \<and> list_all isDigit (decimal n) \<and> digitsValue (decimal n) = n"
proof (induction n rule: decimal.induct)
  case (1 n)
  show ?case
  proof (cases "n < 10")
    case True
    then show ?thesis
      by (subst (1 2 3) decimal.simps) (simp add: digitChar_props digitsValue_def)
  next
    case False
    with 1 have ih: "decimal (n div 10) \<noteq> []" "list_all isDigit (decimal (n div 10))"
      "digitsValue (decimal (n div 10)) = n div 10" by simp_all
    have d: "n mod 10 < 10" by simp
    show ?thesis
      using False ih
      by (subst (1 2 3) decimal.simps) (simp add: digitsValue_snoc digitChar_props[OF d])
  qed
qed

lemma parseInt10_digits:
  assumes "ds \<noteq> []" and "list_all isDigit ds"
  shows "parseInt10 ds = Fin (int (digitsValue ds))"
proof -
  from assms obtain c cs where ds: "ds = c # cs" by (cases ds) auto
  with assms(2) have c: "isDigit c" by simp
  then have nw: "\<not> isWhiteSpace c" and ns: "c \<noteq> CHR ''-''" "c \<noteq> CHR ''+''"
    by (auto simp: isDigit_def isWhiteSpace_def)
  have tw: "takeWhile isDigit ds = ds"
    using assms(2) by (simp add: list_all_iff)
  have dw: "dropWhile isWhiteSpace ds = ds"
    using nw by (simp add: ds)
  show ?thesis
    unfolding parseInt10_def dw Let_def
    using ns assms(1) tw by (simp add: ds)
qed

lemma parseInt10_decimal: "parseInt10 (decimal n) = Fin (int n)"
  using parseInt10_digits[of "decimal n"] decimal_props[of n] by simp

text \<open>
  Saving an integer score of the range and loading it again yields the score; the other
  values of the claim, except \<^verbatim>\<open>NaN\<close>, are rejected and leave the store as it was; a
  stored text whose parse is \<^verbatim>\<open>NaN\<close> or out of range loads as \<open>0\<close> and is removed; and
  a load always yields an integer of the range.
\<close>

lemma save_then_load:
  assumes "0 \<le> n" and "n \<le> 999999999"
  shows "loadHighScore (saveHighScore (JNum (Fin n)) store) = (Fin n, Some (decimal (nat n)))"
  using assms
  by (simp add: saveHighScore_def loadHighScore_def mathFloor_def num_gt_def parseInt10_decimal)

lemma save_rejects:
  "\<not> isNumber v \<or> v = JNum PosInf \<or> v = JNum NegInf \<or>
   (\<exists>n. v = JNum (Fin n) \<and> (n < 0 \<or> 999999999 < n))
   \<Longrightarrow> saveHighScore v store = store"
  by (auto simp add: saveHighScore_def num_gt_def)

lemma load_invalid:
  "isNaN (parseInt10 stored) \<or> num_lt (parseInt10 stored) (Fin 0) \<or>
   num_gt (parseInt10 stored) (Fin 999999999)
   \<Longrightarrow> loadHighScore (Some stored) = (Fin 0, None)"
  by (simp add: loadHighScore_def Let_def)

lemma load_range:
  "\<exists>n. fst (loadHighScore store) = Fin n \<and> 0 \<le> n \<and> n \<le> 999999999"
  by (cases store; cases "parseInt10 (the store)")
     (auto simp add: loadHighScore_def Let_def num_gt_def)

text \<open>
  Claim C8 at the value \<^verbatim>\<open>NaN\<close>. The claim requires that a save of a value outside
  \<open>[0, 999999999]\<close> leaves the store as it is. \<^verbatim>\<open>NaN\<close> is of type number and fails
  neither comparison of the guard, so \<open>saveHighScore\<close> overwrites the stored \<open>42\<close> with the
  text \<open>NaN\<close>; the next load finds it invalid, yields \<open>0\<close> and clears the store.
\<close>

theorem saveHighScore_NaN:
  "saveHighScore (JNum NaN) (Some ''42'') = Some ''NaN'' \<and>
   loadHighScore (saveHighScore (JNum NaN) (Some ''42'')) = (Fin 0, None)"
  by (simp add: saveHighScore_def loadHighScore_def mathFloor_def num_gt_def parseInt10_def
      isWhiteSpace_def isDigit_def)

text \<open>The value of that call is a number, and none of the comparisons of the guard holds.\<close>

theorem saveHighScore_NaN_witness:
  "isNumber (JNum NaN) \<and> \<not> num_lt NaN (Fin 0) \<and> \<not> num_gt NaN (Fin 999999999) \<and>
   saveHighScore (JNum NaN) (Some ''42'') = Some ''NaN''"
  using saveHighScore_NaN by (simp add: num_gt_def)

section \<open>Level and drop interval over a session\<close>































section \<open>Sessions neither fault nor hang\<close>




























section \<open>Sessions on the smallest board\<close>





















lemma saveNumber_int: "saveNumber (of_int n) store = saveHighScore (JNum (Fin n)) store"
  by (simp add: saveNumber_def saveHighScore_def mathFloor_def num_gt_def)










end
